theory Spec2Isabelle
  imports Complex_Main "HOL-Library.Sublist"
begin

section \<open>Strings and numbers of the Python source\<close>

text \<open>
  The services \<^verbatim>\<open>schema_discovery.py\<close> and \<^verbatim>\<open>query_engine.py\<close> work on Python
  strings, dictionaries and floats. Here a string is a \<^typ>\<open>string\<close> (a list of
  8-bit characters: the text is taken to be ASCII), a dictionary is an association list
  in insertion order (Python dictionaries iterate in insertion order), and a float is a
  \<^typ>\<open>rat\<close>: the scores are computed exactly, the rounding of binary floating point
  is not modelled.
\<close>

type_synonym pyfloat = rat

text \<open>\<^verbatim>\<open>str.lower()\<close> on ASCII text: the letters A to Z move to a to z.\<close>

definition lower_char :: "char \<Rightarrow> char" where
  "lower_char c =
     (let n = (of_char c :: nat) in if 65 \<le> n \<and> n \<le> 90 then char_of (n + 32) else c)"

definition lower :: "string \<Rightarrow> string" where
  "lower s = map lower_char s"

text \<open>\<^verbatim>\<open>s.startswith(p)\<close> and \<^verbatim>\<open>sub in s\<close> (a contiguous occurrence).\<close>

fun startswith :: "string \<Rightarrow> string \<Rightarrow> bool" where
  "startswith s [] = True"
| "startswith [] (p # ps) = False"
| "startswith (c # cs) (p # ps) = (c = p \<and> startswith cs ps)"

fun str_in :: "string \<Rightarrow> string \<Rightarrow> bool" where
  "str_in sub [] = (sub = [])"
| "str_in sub (c # cs) = (startswith (c # cs) sub \<or> str_in sub cs)"

text \<open>\<^verbatim>\<open>any(keyword in text for keyword in keywords)\<close>.\<close>

definition any_in :: "string list \<Rightarrow> string \<Rightarrow> bool" where
  "any_in keywords text = list_ex (\<lambda>keyword. str_in keyword text) keywords"

section \<open>Query classification\<close>

text \<open>\<^verbatim>\<open>SQLiteSchemaDiscovery._classify_query_type\<close>.\<close>

definition classify_query_type :: "string \<Rightarrow> string" where
  "classify_query_type query =
     (let query_lower = lower query in
      if any_in [''count'', ''how many'', ''number of'', ''total''] query_lower then ''count''
      else if any_in [''average'', ''avg'', ''mean''] query_lower then ''aggregation''
      else if any_in [''highest'', ''lowest'', ''top'', ''bottom'', ''max'', ''min''] query_lower
        then ''ranking''
      else if any_in [''sum'', ''total amount'', ''sum of''] query_lower then ''sum''
      else if any_in [''group by'', ''by department'', ''by role'', ''grouped by''] query_lower
        then ''grouping''
      else if any_in [''list'', ''show'', ''display'', ''get'', ''find'', ''all''] query_lower
        then ''selection''
      else ''general'')"

text \<open>
  The classifier as the specification words it: a table of intents in priority order,
  each with its trigger phrases, searched for the first intent one of whose phrases
  occurs in the text; \<open>general\<close> when none does.
\<close>

definition intent_priority :: "(string \<times> string list) list" where
  "intent_priority =
     [(''count'', [''count'', ''how many'', ''number of'', ''total'']),
      (''aggregation'', [''average'', ''avg'', ''mean'']),
      (''ranking'', [''highest'', ''lowest'', ''top'', ''bottom'', ''max'', ''min'']),
      (''sum'', [''sum'', ''total amount'', ''sum of'']),
      (''grouping'', [''group by'', ''by department'', ''by role'', ''grouped by'']),
      (''selection'', [''list'', ''show'', ''display'', ''get'', ''find'', ''all''])]"

fun first_matching_intent :: "(string \<times> string list) list \<Rightarrow> string \<Rightarrow> string" where
  "first_matching_intent [] text = ''general''"
| "first_matching_intent ((intent, phrases) # rest) text =
     (if \<exists>phrase \<in> set phrases. sublist phrase text then intent
      else first_matching_intent rest text)"

section \<open>The schema snapshot\<close>

text \<open>
  The schema is a nest of Python dictionaries. A key that the code reads with
  \<^verbatim>\<open>d[key]\<close> is a field; a key that the code reads with \<^verbatim>\<open>d.get(key, default)\<close>
  is an optional field, and the default is written out where it is read.
\<close>

datatype py_error = KeyError | ValueError | DatabaseError

datatype sql_value = SqlNull | SqlInt int | SqlText string

record column_info =
  col_name :: string
  col_type :: "string option"
  col_not_null :: bool
  col_default_value :: "sql_value"
  col_primary_key :: bool
  col_purpose :: "string option"

record foreign_key =
  fk_column :: string
  fk_referenced_table :: string
  fk_referenced_column :: string

record table_info =
  ti_columns :: "column_info list option"
  ti_primary_keys :: "string list"
  ti_foreign_keys :: "foreign_key list"
  ti_sample_data :: "(string \<times> sql_value) list list"
  ti_row_count :: int
  ti_column_purposes :: "(string \<times> string) list option"
  ti_purpose :: "string option"

record naming_patterns =
  np_column_synonyms :: "(string \<times> string list) list option"
  np_table_synonyms :: "(string \<times> string list) list option"
  np_query_patterns :: "(string \<times> string list) list option"

record relationship =
  rel_type :: string
  rel_local_column :: string
  rel_remote_table :: string
  rel_remote_column :: string
  rel_relationship_strength :: string

record statistics =
  stat_total_tables :: nat
  stat_total_rows :: int
  stat_table_sizes :: "(string \<times> int) list"
  stat_database_size_mb :: pyfloat

record schema_info =
  si_tables :: "(string \<times> table_info) list option"
  si_relationships :: "(string \<times> relationship list) list"
  si_statistics :: statistics
  si_naming_patterns :: "naming_patterns option"
  si_database_type :: string

text \<open>
  \<^verbatim>\<open>d[key] = value\<close> on a dictionary kept in insertion order: an existing key keeps
  its place, a new key goes to the end.
\<close>

fun dict_set :: "'k \<Rightarrow> 'v \<Rightarrow> ('k \<times> 'v) list \<Rightarrow> ('k \<times> 'v) list" where
  "dict_set k v [] = [(k, v)]"
| "dict_set k v ((k', v') # d) = (if k = k' then (k, v) # d else (k', v') # dict_set k v d)"

text \<open>\<^verbatim>\<open>d.get(key, default)\<close>.\<close>

definition dict_get :: "('k \<times> 'v) list \<Rightarrow> 'k \<Rightarrow> 'v \<Rightarrow> 'v" where
  "dict_get d k dflt = (case map_of d k of None \<Rightarrow> dflt | Some v \<Rightarrow> v)"

definition get_or :: "'a option \<Rightarrow> 'a \<Rightarrow> 'a" where
  "get_or field dflt = (case field of None \<Rightarrow> dflt | Some v \<Rightarrow> v)"

text \<open>The empty dictionary \<^verbatim>\<open>{}\<close> read as naming patterns: every key is absent.\<close>

definition no_patterns :: naming_patterns where
  "no_patterns = \<lparr>np_column_synonyms = None, np_table_synonyms = None, np_query_patterns = None\<rparr>"

section \<open>Relevance scoring\<close>

text \<open>
  \<^verbatim>\<open>_calculate_table_relevance\<close>. The loop over \<^verbatim>\<open>table_synonyms.items()\<close> credits
  0.7 for an entry whose synonym list holds the lower-cased table name and has a member
  occurring in the query (the inner loop stops at its first hit); the loop over the
  columns counts the matches and credits 0.2 for each.
\<close>

fun table_synonym_loop ::
  "(string \<times> string list) list \<Rightarrow> string \<Rightarrow> string \<Rightarrow> pyfloat \<Rightarrow> pyfloat" where
  "table_synonym_loop [] table_name query relevance = relevance"
| "table_synonym_loop ((canonical_name, synonyms) # rest) table_name query relevance =
     table_synonym_loop rest table_name query
       (if lower table_name \<in> set synonyms
        then (if any_in synonyms query then relevance + 7/10 else relevance)
        else relevance)"

fun column_match_loop ::
  "column_info list \<Rightarrow> string \<Rightarrow> nat \<times> pyfloat \<Rightarrow> nat \<times> pyfloat" where
  "column_match_loop [] query (column_matches, relevance) = (column_matches, relevance)"
| "column_match_loop (col # cols) query (column_matches, relevance) =
     column_match_loop cols query
       (if str_in (lower (col_name col)) query
        then (column_matches + 1, relevance + 2/10)
        else (column_matches, relevance))"

definition calculate_table_relevance ::
  "string \<Rightarrow> string \<Rightarrow> table_info \<Rightarrow> naming_patterns \<Rightarrow> pyfloat" where
  "calculate_table_relevance query table_name table_info patterns =
     (let relevance = (if str_in (lower table_name) query then 0 + 8/10 else 0);
          relevance = table_synonym_loop (get_or (np_table_synonyms patterns) [])
                        table_name query relevance;
          relevance = (if str_in (get_or (ti_purpose table_info) []) query
                       then relevance + 6/10 else relevance);
          (column_matches, relevance) =
             column_match_loop (get_or (ti_columns table_info) []) query (0, relevance);
          relevance = (if column_matches > 2 then relevance + 3/10 else relevance)
      in min relevance 1)"

text \<open>\<^verbatim>\<open>_calculate_column_relevance\<close>.\<close>

fun column_synonym_loop ::
  "(string \<times> string list) list \<Rightarrow> string \<Rightarrow> string \<Rightarrow> pyfloat \<Rightarrow> pyfloat" where
  "column_synonym_loop [] column_name query relevance = relevance"
| "column_synonym_loop ((canonical_name, synonyms) # rest) column_name query relevance =
     column_synonym_loop rest column_name query
       (if lower column_name \<in> set synonyms \<or> lower column_name = canonical_name
        then (if any_in synonyms query then relevance + 7/10 else relevance)
        else relevance)"

definition calculate_column_relevance ::
  "string \<Rightarrow> string \<Rightarrow> column_info \<Rightarrow> naming_patterns \<Rightarrow> pyfloat" where
  "calculate_column_relevance query column_name column_info patterns =
     (let relevance = (if str_in (lower column_name) query then 0 + 8/10 else 0);
          relevance = column_synonym_loop (get_or (np_column_synonyms patterns) [])
                        column_name query relevance;
          relevance = (if str_in (get_or (col_purpose column_info) []) query
                       then relevance + 5/10 else relevance);
          type_lower = lower (get_or (col_type column_info) []);
          relevance = (if str_in ''salary'' query
                          \<and> type_lower \<in> set [''decimal'', ''numeric'', ''integer'']
                       then relevance + 3/10 else relevance);
          relevance = (if str_in ''name'' query
                          \<and> type_lower \<in> set [''varchar'', ''text'', ''char'']
                       then relevance + 3/10 else relevance);
          relevance = (if str_in ''date'' query \<and> str_in ''date'' type_lower
                       then relevance + 3/10 else relevance)
      in min relevance 1)"

section \<open>The query mapping\<close>

record suggested_table =
  st_table_name :: string
  st_relevance :: pyfloat
  st_purpose :: string

record suggested_column =
  sc_column_name :: string
  sc_relevance :: pyfloat
  sc_purpose :: string
  sc_data_type :: string

record query_mapping =
  qm_suggested_tables :: "suggested_table list"
  qm_suggested_columns :: "(string \<times> suggested_column list) list"
  qm_query_type :: string
  qm_confidence :: pyfloat
  qm_sql_hints :: "string list"

text \<open>
  \<^verbatim>\<open>xs.sort(key=..., reverse=True)\<close>: Python's sort is stable, also when reversed, so
  elements of equal key keep their order. An insertion sort on the negated key does the
  same.
\<close>

definition sort_reverse :: "('a \<Rightarrow> pyfloat) \<Rightarrow> 'a list \<Rightarrow> 'a list" where
  "sort_reverse key xs = sort_key (\<lambda>x. - key x) xs"

text \<open>\<^verbatim>\<open>_generate_sql_hints\<close>.\<close>

definition generate_sql_hints :: "string \<Rightarrow> query_mapping \<Rightarrow> string list" where
  "generate_sql_hints query mapping =
     (let qt = qm_query_type mapping;
          hints =
            (if qt = ''count'' then [''Use SELECT COUNT(*) or COUNT(column_name)'']
             else if qt = ''aggregation'' then [''Use AVG() function'']
             else if qt = ''ranking'' then [''Use ORDER BY with LIMIT'']
             else if qt = ''sum'' then [''Use SUM() function'']
             else if qt = ''grouping'' then [''Use GROUP BY clause'']
             else if qt = ''selection'' then [''Use SELECT with WHERE conditions'']
             else [])
      in if length (qm_suggested_tables mapping) > 1
         then hints @ [''Consider JOINing tables using foreign key relationships'']
         else hints)"

text \<open>
  \<^verbatim>\<open>_calculate_mapping_confidence\<close>. The division is Python's float division; the
  branch for a zero total is kept as the source has it.
\<close>

definition calculate_mapping_confidence :: "query_mapping \<Rightarrow> pyfloat" where
  "calculate_mapping_confidence mapping =
     (if qm_suggested_tables mapping = [] then 0
      else
        let table_relevances = map st_relevance (qm_suggested_tables mapping);
            avg_table_relevance = sum_list table_relevances / of_nat (length table_relevances);
            tables_with_columns =
              length (filter (\<lambda>cols. cols \<noteq> []) (map snd (qm_suggested_columns mapping)));
            total_suggested_tables = length (qm_suggested_tables mapping);
            column_coverage =
              (if total_suggested_tables = 0 then 0
               else of_nat tables_with_columns / of_nat total_suggested_tables);
            query_type_confidence = (if qm_query_type mapping \<noteq> ''general'' then 8/10 else 4/10);
            confidence = avg_table_relevance * (4/10) + column_coverage * (3/10)
                           + query_type_confidence * (3/10)
        in min confidence 1)"

text \<open>
  \<^verbatim>\<open>map_natural_language_to_schema\<close>. The first loop collects the tables whose
  relevance exceeds 0.2, in the order of \<^verbatim>\<open>tables.items()\<close>; the second loop fills
  \<^verbatim>\<open>suggested_columns\<close> for each suggested table, reading \<^verbatim>\<open>tables[table_name]\<close>
  (a missing key raises).
\<close>

fun suggest_tables ::
  "(string \<times> table_info) list \<Rightarrow> string \<Rightarrow> naming_patterns \<Rightarrow> suggested_table list" where
  "suggest_tables [] query_lower patterns = []"
| "suggest_tables ((table_name, table_info) # rest) query_lower patterns =
     (let relevance = calculate_table_relevance query_lower table_name table_info patterns
      in if relevance > 2/10
         then \<lparr>st_table_name = table_name, st_relevance = relevance,
               st_purpose = get_or (ti_purpose table_info) ''unknown''\<rparr>
              # suggest_tables rest query_lower patterns
         else suggest_tables rest query_lower patterns)"

fun relevant_columns ::
  "column_info list \<Rightarrow> string \<Rightarrow> naming_patterns \<Rightarrow> table_info \<Rightarrow> suggested_column list" where
  "relevant_columns [] query_lower patterns table_data = []"
| "relevant_columns (col_info # rest) query_lower patterns table_data =
     (let column_name = col_name col_info;
          col_relevance = calculate_column_relevance query_lower column_name col_info patterns
      in if col_relevance > 1/10
         then \<lparr>sc_column_name = column_name, sc_relevance = col_relevance,
               sc_purpose =
                 dict_get (get_or (ti_column_purposes table_data) []) column_name ''unknown'',
               sc_data_type = get_or (col_type col_info) ''unknown''\<rparr>
              # relevant_columns rest query_lower patterns table_data
         else relevant_columns rest query_lower patterns table_data)"

fun suggest_columns ::
  "suggested_table list \<Rightarrow> (string \<times> table_info) list \<Rightarrow> string \<Rightarrow> naming_patterns \<Rightarrow>
   (string \<times> suggested_column list) list \<Rightarrow> py_error + (string \<times> suggested_column list) list"
  where
  "suggest_columns [] tables query_lower patterns acc = Inr acc"
| "suggest_columns (table_info # rest) tables query_lower patterns acc =
     (let table_name = st_table_name table_info in
      case map_of tables table_name of
        None \<Rightarrow> Inl KeyError
      | Some table_data \<Rightarrow>
          suggest_columns rest tables query_lower patterns
            (dict_set table_name
               (sort_reverse sc_relevance
                  (relevant_columns (get_or (ti_columns table_data) []) query_lower patterns
                     table_data))
               acc))"

definition map_natural_language_to_schema ::
  "string \<Rightarrow> schema_info \<Rightarrow> py_error + query_mapping" where
  "map_natural_language_to_schema query schema_info =
     (let mapping = \<lparr>qm_suggested_tables = [], qm_suggested_columns = [],
                      qm_query_type = classify_query_type query, qm_confidence = 0,
                      qm_sql_hints = []\<rparr>;
          query_lower = lower query;
          tables = get_or (si_tables schema_info) [];
          patterns = get_or (si_naming_patterns schema_info) no_patterns;
          mapping = mapping\<lparr>qm_suggested_tables :=
                      sort_reverse st_relevance (suggest_tables tables query_lower patterns)\<rparr>
      in case suggest_columns (qm_suggested_tables mapping) tables query_lower patterns [] of
           Inl e \<Rightarrow> Inl e
         | Inr cols \<Rightarrow>
             (let mapping = mapping\<lparr>qm_suggested_columns := cols\<rparr>;
                  mapping = mapping\<lparr>qm_sql_hints := generate_sql_hints query_lower mapping\<rparr>;
                  mapping = mapping\<lparr>qm_confidence := calculate_mapping_confidence mapping\<rparr>
              in Inr mapping))"






section \<open>The naming pattern dictionary and a sample schema\<close>

text \<open>\<^verbatim>\<open>_analyze_naming_patterns\<close>: a fixed dictionary, whatever the tables are.\<close>

definition analyze_naming_patterns :: "(string \<times> table_info) list \<Rightarrow> naming_patterns" where
  "analyze_naming_patterns tables =
     \<lparr>np_column_synonyms = Some
        [(''employee_id'', [''emp_id'', ''staff_id'', ''worker_id'', ''personnel_id'', ''user_id'']),
         (''first_name'', [''fname'', ''given_name'', ''forename'', ''name'']),
         (''last_name'', [''lname'', ''surname'', ''family_name'']),
         (''full_name'', [''name'', ''employee_name'', ''person_name'']),
         (''salary'', [''wage'', ''pay'', ''compensation'', ''income'', ''earnings'']),
         (''department'', [''dept'', ''division'', ''unit'', ''section'', ''team'']),
         (''hire_date'', [''start_date'', ''join_date'', ''employment_date'', ''hired'']),
         (''email'', [''email_address'', ''mail'', ''e_mail'', ''contact_email'']),
         (''phone'', [''phone_number'', ''telephone'', ''mobile'', ''contact_number'']),
         (''address'', [''location'', ''street_address'', ''home_address'']),
         (''position'', [''job_title'', ''role'', ''designation'', ''title'']),
         (''manager'', [''supervisor'', ''boss'', ''lead'', ''manager_id'']),
         (''status'', [''state'', ''condition'', ''active'', ''inactive''])],
      np_table_synonyms = Some
        [(''employees'', [''employee'', ''emp'', ''staff'', ''personnel'', ''worker'', ''people'']),
         (''departments'', [''department'', ''dept'', ''division'', ''unit'', ''team'']),
         (''salaries'', [''salary'', ''compensation'', ''pay'', ''wage'', ''payroll'']),
         (''projects'', [''project'', ''assignment'', ''task'', ''work'']),
         (''orders'', [''order'', ''purchase'', ''sale'', ''transaction'']),
         (''customers'', [''customer'', ''client'', ''contact'', ''user'']),
         (''products'', [''product'', ''item'', ''inventory'', ''stock''])],
      np_query_patterns = Some
        [(''count'', [''how many'', ''number of'', ''count of'', ''total'']),
         (''average'', [''average'', ''avg'', ''mean'']),
         (''maximum'', [''highest'', ''max'', ''maximum'', ''top'', ''largest'']),
         (''minimum'', [''lowest'', ''min'', ''minimum'', ''bottom'', ''smallest'']),
         (''list'', [''show'', ''display'', ''list'', ''get'', ''find'', ''all'']),
         (''filter'', [''where'', ''with'', ''having'', ''that have'']),
         (''group'', [''by department'', ''by role'', ''group by'', ''grouped by''])]\<rparr>"

text \<open>
  A schema snapshot with one table \<open>employees\<close> that has a numeric column \<open>salary\<close> of
  monetary purpose, as \<^verbatim>\<open>analyze_database\<close> builds it.
\<close>

definition salary_column :: column_info where
  "salary_column =
     \<lparr>col_name = ''salary'', col_type = Some ''DECIMAL(10,2)'', col_not_null = False,
      col_default_value = SqlNull, col_primary_key = False, col_purpose = None\<rparr>"

definition employees_table :: table_info where
  "employees_table =
     \<lparr>ti_columns = Some [salary_column], ti_primary_keys = [], ti_foreign_keys = [],
      ti_sample_data = [], ti_row_count = 0,
      ti_column_purposes = Some [(''salary'', ''monetary'')],
      ti_purpose = Some ''employees''\<rparr>"

definition employees_schema :: schema_info where
  "employees_schema =
     \<lparr>si_tables = Some [(''employees'', employees_table)],
      si_relationships = [(''employees'', [])],
      si_statistics = \<lparr>stat_total_tables = 1, stat_total_rows = 0,
                        stat_table_sizes = [(''employees'', 0)], stat_database_size_mb = 0\<rparr>,
      si_naming_patterns = Some (analyze_naming_patterns [(''employees'', employees_table)]),
      si_database_type = ''sqlite''\<rparr>"



section \<open>The schema analyzer\<close>

text \<open>
  The SQLite connection is a record of the answers the database gives: each query either
  raises (\<open>Inl\<close>) or returns rows. A row of \<^verbatim>\<open>PRAGMA table_info\<close> carries the
  column's name, type, not-null flag, default and primary-key flag (positions 1 to 5); a
  row of \<^verbatim>\<open>PRAGMA foreign_key_list\<close> the referenced table, the local column and the
  referenced column (positions 2 to 4). A sample row is its list of column names and
  values.
\<close>

record table_info_row =
  tir_name :: string
  tir_type :: string
  tir_notnull :: int
  tir_dflt_value :: sql_value
  tir_pk :: int

record foreign_key_row =
  fkr_table :: string
  fkr_from :: string
  fkr_to :: string

record database =
  db_list_tables :: "py_error + string list"
  db_table_info :: "string \<Rightarrow> py_error + table_info_row list"
  db_foreign_key_list :: "string \<Rightarrow> py_error + foreign_key_row list"
  db_select_all :: "string \<Rightarrow> py_error + (string \<times> sql_value) list list"
  db_count :: "string \<Rightarrow> py_error + int"
  db_file_size :: "py_error + nat"

record schema_discovery =
  sd_db_path :: string
  sd_connection :: "database option"

text \<open>\<^verbatim>\<open>_detect_table_purpose\<close> and \<^verbatim>\<open>_detect_column_purpose\<close>.\<close>

definition detect_table_purpose :: "string \<Rightarrow> table_info \<Rightarrow> string" where
  "detect_table_purpose table_name table_info =
     (let name_lower = lower table_name in
      if any_in [''employee'', ''emp'', ''staff'', ''personnel'', ''worker'', ''user'', ''person'']
           name_lower then ''employees''
      else if any_in [''department'', ''dept'', ''division'', ''unit'', ''team'', ''group'']
           name_lower then ''departments''
      else if any_in [''salary'', ''compensation'', ''pay'', ''wage'', ''payroll'', ''earning'']
           name_lower then ''compensation''
      else if any_in [''project'', ''assignment'', ''task'', ''work'', ''job''] name_lower
        then ''projects''
      else if any_in [''role'', ''position'', ''job'', ''title'', ''designation''] name_lower
        then ''roles''
      else if any_in [''document'', ''doc'', ''file'', ''attachment'', ''record''] name_lower
        then ''documents''
      else if any_in [''order'', ''purchase'', ''sale'', ''transaction''] name_lower
        then ''transactions''
      else if any_in [''product'', ''item'', ''inventory'', ''stock''] name_lower
        then ''products''
      else if any_in [''customer'', ''client'', ''contact''] name_lower then ''customers''
      else ''unknown'')"

definition endswith :: "string \<Rightarrow> string \<Rightarrow> bool" where
  "endswith s ending = startswith (rev s) (rev ending)"

definition detect_column_purpose :: "string \<Rightarrow> string \<Rightarrow> string" where
  "detect_column_purpose column_name column_type =
     (let name_lower = lower column_name; type_str = lower column_type in
      if any_in [''id'', ''key''] name_lower \<or> endswith name_lower ''_id'' then ''identifier''
      else if any_in [''name'', ''title'', ''label'', ''fname'', ''lname'', ''first_name'',
                      ''last_name''] name_lower then ''name''
      else if any_in [''email'', ''mail'', ''e_mail''] name_lower then ''email''
      else if any_in [''phone'', ''tel'', ''mobile'', ''contact''] name_lower then ''phone''
      else if any_in [''date'', ''time'', ''created'', ''updated'', ''modified'', ''timestamp'']
           name_lower then ''datetime''
      else if any_in [''salary'', ''wage'', ''pay'', ''compensation'', ''amount'', ''price'',
                      ''cost''] name_lower then ''monetary''
      else if any_in [''address'', ''location'', ''city'', ''state'', ''country'', ''zip'',
                      ''postal''] name_lower then ''location''
      else if any_in [''status'', ''state'', ''category'', ''type'', ''kind''] name_lower
        then ''category''
      else if any_in [''varchar'', ''text'', ''char'', ''string''] type_str then ''text''
      else if any_in [''int'', ''integer'', ''numeric'', ''decimal'', ''float'', ''real'',
                      ''double''] type_str then ''numeric''
      else if any_in [''date'', ''time'', ''timestamp'', ''datetime''] type_str then ''datetime''
      else if any_in [''bool'', ''boolean''] type_str then ''boolean''
      else ''unknown'')"

text \<open>
  \<^verbatim>\<open>_analyze_table\<close>. The outer \<^verbatim>\<open>try\<close> turns a failure of either pragma into the
  default entry; the two inner ones turn a failure of the sample query into an empty sample
  and a failure of the count query into a count of zero. The sample query asks for at
  most three rows.
\<close>

definition col_info_of_row :: "table_info_row \<Rightarrow> column_info" where
  "col_info_of_row row =
     \<lparr>col_name = tir_name row, col_type = Some (tir_type row),
      col_not_null = (tir_notnull row \<noteq> 0), col_default_value = tir_dflt_value row,
      col_primary_key = (tir_pk row \<noteq> 0), col_purpose = None\<rparr>"

definition foreign_key_of_row :: "foreign_key_row \<Rightarrow> foreign_key" where
  "foreign_key_of_row row =
     \<lparr>fk_column = fkr_from row, fk_referenced_table = fkr_table row,
      fk_referenced_column = fkr_to row\<rparr>"

definition dict_of_pairs :: "('k \<times> 'v) list \<Rightarrow> ('k \<times> 'v) list" where
  "dict_of_pairs pairs = foldl (\<lambda>d (k, v). dict_set k v d) [] pairs"

definition failed_table_info :: table_info where
  "failed_table_info =
     \<lparr>ti_columns = Some [], ti_primary_keys = [], ti_foreign_keys = [], ti_sample_data = [],
      ti_row_count = 0, ti_column_purposes = Some [], ti_purpose = None\<rparr>"

definition analyze_table :: "string \<Rightarrow> database \<Rightarrow> table_info" where
  "analyze_table table_name cursor =
     (case db_table_info cursor table_name of
        Inl e \<Rightarrow> failed_table_info
      | Inr rows \<Rightarrow>
          (let columns = map col_info_of_row rows;
               primary_keys = map col_name (filter col_primary_key columns)
           in case db_foreign_key_list cursor table_name of
                Inl e \<Rightarrow> failed_table_info
              | Inr fk_rows \<Rightarrow>
                  (let foreign_keys = map foreign_key_of_row fk_rows;
                       sample_rows =
                         (case db_select_all cursor table_name of
                            Inl e \<Rightarrow> []
                          | Inr rows \<Rightarrow> map dict_of_pairs (take 3 rows));
                       row_count =
                         (case db_count cursor table_name of Inl e \<Rightarrow> 0 | Inr n \<Rightarrow> n);
                       column_purposes =
                         dict_of_pairs (map (\<lambda>col.
                           (col_name col,
                            detect_column_purpose (col_name col) (get_or (col_type col) [])))
                           columns)
                   in \<lparr>ti_columns = Some columns, ti_primary_keys = primary_keys,
                        ti_foreign_keys = foreign_keys, ti_sample_data = sample_rows,
                        ti_row_count = row_count, ti_column_purposes = Some column_purposes,
                        ti_purpose = None\<rparr>)))"

text \<open>\<^verbatim>\<open>_analyze_relationships\<close> and \<^verbatim>\<open>_collect_statistics\<close>.\<close>

definition relationship_of_row :: "foreign_key_row \<Rightarrow> relationship" where
  "relationship_of_row row =
     \<lparr>rel_type = ''foreign_key'', rel_local_column = fkr_from row,
      rel_remote_table = fkr_table row, rel_remote_column = fkr_to row,
      rel_relationship_strength = ''strong''\<rparr>"

fun analyze_relationships ::
  "string list \<Rightarrow> database \<Rightarrow> (string \<times> relationship list) list \<Rightarrow>
   (string \<times> relationship list) list" where
  "analyze_relationships [] cursor relationships = relationships"
| "analyze_relationships (table_name # rest) cursor relationships =
     analyze_relationships rest cursor
       (dict_set table_name
          (case db_foreign_key_list cursor table_name of
             Inl e \<Rightarrow> []
           | Inr rows \<Rightarrow> map relationship_of_row rows)
          relationships)"

text \<open>\<^verbatim>\<open>round(x, 2)\<close>: to two decimals, a tie going to the even neighbour.\<close>

definition round2 :: "pyfloat \<Rightarrow> pyfloat" where
  "round2 x =
     (let y = x * 100; f = \<lfloor>y\<rfloor>; d = y - of_int f
      in of_int (if d < 1/2 then f else if 1/2 < d then f + 1
                 else if even f then f else f + 1) / 100)"

fun collect_table_sizes :: "string list \<Rightarrow> database \<Rightarrow> statistics \<Rightarrow> statistics" where
  "collect_table_sizes [] cursor stats = stats"
| "collect_table_sizes (table_name # rest) cursor stats =
     collect_table_sizes rest cursor
       (case db_count cursor table_name of
          Inl e \<Rightarrow> stats\<lparr>stat_table_sizes := dict_set table_name 0 (stat_table_sizes stats)\<rparr>
        | Inr row_count \<Rightarrow>
            stats\<lparr>stat_total_rows := stat_total_rows stats + row_count,
                  stat_table_sizes := dict_set table_name row_count (stat_table_sizes stats)\<rparr>)"

definition collect_statistics :: "string list \<Rightarrow> database \<Rightarrow> statistics" where
  "collect_statistics table_names cursor =
     (let stats = \<lparr>stat_total_tables = length table_names, stat_total_rows = 0,
                    stat_table_sizes = [], stat_database_size_mb = 0\<rparr>;
          stats = collect_table_sizes table_names cursor stats
      in case db_file_size cursor of
           Inl e \<Rightarrow> stats
         | Inr db_size_bytes \<Rightarrow>
             stats\<lparr>stat_database_size_mb := round2 (of_nat db_size_bytes / (1024 * 1024))\<rparr>)"

text \<open>
  \<^verbatim>\<open>analyze_database\<close>: without a connection it raises \<open>ValueError\<close>; a failure of the
  query that lists the tables is raised again; every table is analyzed and its purpose
  stored in its entry.
\<close>

fun analyze_tables ::
  "string list \<Rightarrow> database \<Rightarrow> (string \<times> table_info) list \<Rightarrow> (string \<times> table_info) list" where
  "analyze_tables [] cursor tables = tables"
| "analyze_tables (table_name # rest) cursor tables =
     (let table_info = analyze_table table_name cursor;
          purpose = detect_table_purpose table_name table_info
      in analyze_tables rest cursor
           (dict_set table_name (table_info\<lparr>ti_purpose := Some purpose\<rparr>) tables))"

definition analyze_database :: "schema_discovery \<Rightarrow> py_error + schema_info" where
  "analyze_database self =
     (case sd_connection self of
        None \<Rightarrow> Inl ValueError
      | Some cursor \<Rightarrow>
          (case db_list_tables cursor of
             Inl e \<Rightarrow> Inl e
           | Inr tables \<Rightarrow>
               (let schema_tables = analyze_tables tables cursor []
                in Inr \<lparr>si_tables = Some schema_tables,
                        si_relationships = analyze_relationships tables cursor [],
                        si_statistics = collect_statistics tables cursor,
                        si_naming_patterns = Some (analyze_naming_patterns schema_tables),
                        si_database_type = ''sqlite''\<rparr>)))"

text \<open>
  A database with two tables: both pragmas fail on \<open>departments\<close>; on \<open>employees\<close> the
  sample query and the count query fail.
\<close>

definition flaky_database :: database where
  "flaky_database =
     \<lparr>db_list_tables = Inr [''departments'', ''employees''],
      db_table_info = (\<lambda>t. if t = ''employees''
         then Inr [\<lparr>tir_name = ''salary'', tir_type = ''DECIMAL(10,2)'', tir_notnull = 0,
                    tir_dflt_value = SqlNull, tir_pk = 0\<rparr>]
         else Inl DatabaseError),
      db_foreign_key_list = (\<lambda>t. if t = ''employees'' then Inr [] else Inl DatabaseError),
      db_select_all = (\<lambda>t. Inl DatabaseError),
      db_count = (\<lambda>t. Inl DatabaseError),
      db_file_size = Inr 131072\<rparr>"

section \<open>The table relevance in closed form\<close>







section \<open>Facts about strings\<close>

lemma startswith_prefix: "startswith s p \<longleftrightarrow> prefix p s"
  by (induction s p rule: startswith.induct) auto

lemma str_in_sublist: "str_in sub s \<longleftrightarrow> sublist sub s"
proof (induction s)
  case Nil
  then show ?case by simp
next
  case (Cons c cs)
  then show ?case by (simp add: startswith_prefix sublist_Cons_right)
qed

lemma any_in_sublist: "any_in keywords text \<longleftrightarrow> (\<exists>k \<in> set keywords. sublist k text)"
  by (simp add: any_in_def list_ex_iff str_in_sublist)

lemma str_in_append_left: "str_in (a @ b) s \<Longrightarrow> str_in a s"
proof -
  assume "str_in (a @ b) s"
  then obtain ps ss where "s = ps @ (a @ b) @ ss"
    by (auto simp: str_in_sublist sublist_def)
  then have "s = ps @ a @ (b @ ss)" by simp
  then show "str_in a s"
    unfolding str_in_sublist sublist_def by blast
qed

section \<open>Bounds of the scores\<close>

lemma table_synonym_loop_ge:
  "relevance \<le> table_synonym_loop d table_name query relevance"
proof (induction d arbitrary: relevance)
  case Nil
  then show ?case by simp
next
  case (Cons e d)
  obtain canonical_name synonyms where e: "e = (canonical_name, synonyms)" by (cases e)
  let ?r = "if lower table_name \<in> set synonyms
        then (if any_in synonyms query then relevance + 7/10 else relevance)
        else relevance"
  have "relevance \<le> ?r" by simp
  also have "?r \<le> table_synonym_loop d table_name query ?r" by (rule Cons.IH)
  finally show ?case by (simp add: e)
qed

lemma column_synonym_loop_ge:
  "relevance \<le> column_synonym_loop d column_name query relevance"
proof (induction d arbitrary: relevance)
  case Nil
  then show ?case by simp
next
  case (Cons e d)
  obtain canonical_name synonyms where e: "e = (canonical_name, synonyms)" by (cases e)
  let ?r = "if lower column_name \<in> set synonyms \<or> lower column_name = canonical_name
        then (if any_in synonyms query then relevance + 7/10 else relevance)
        else relevance"
  have "relevance \<le> ?r" by simp
  also have "?r \<le> column_synonym_loop d column_name query ?r" by (rule Cons.IH)
  finally show ?case by (simp add: e)
qed

lemma column_match_loop_ge:
  "relevance \<le> snd (column_match_loop cols query (n, relevance))"
proof (induction cols arbitrary: n relevance)
  case Nil
  then show ?case by simp
next
  case (Cons col cols)
  show ?case
  proof (cases "str_in (lower (col_name col)) query")
    case True
    have "relevance \<le> relevance + 2/10" by simp
    also have "\<dots> \<le> snd (column_match_loop cols query (n + 1, relevance + 2/10))"
      by (rule Cons.IH)
    finally show ?thesis using True by simp
  next
    case False
    then show ?thesis using Cons.IH [of relevance n] by simp
  qed
qed

lemma calculate_table_relevance_bounds:
  "0 \<le> calculate_table_relevance query table_name table_info patterns \<and>
   calculate_table_relevance query table_name table_info patterns \<le> 1"
proof -
  let ?r1 = "if str_in (lower table_name) query then 0 + 8/10 else (0::pyfloat)"
  let ?r2 = "table_synonym_loop (get_or (np_table_synonyms patterns) []) table_name query ?r1"
  let ?r3 = "if str_in (get_or (ti_purpose table_info) []) query then ?r2 + 6/10 else ?r2"
  let ?p = "column_match_loop (get_or (ti_columns table_info) []) query (0, ?r3)"
  have "0 \<le> ?r1" by simp
  also have "?r1 \<le> ?r2" by (rule table_synonym_loop_ge)
  also have "?r2 \<le> ?r3" by simp
  also have "?r3 \<le> snd ?p" by (rule column_match_loop_ge)
  finally have "0 \<le> snd ?p" .
  then show ?thesis
    by (simp add: calculate_table_relevance_def Let_def split_beta)
qed

lemma calculate_column_relevance_bounds:
  "0 \<le> calculate_column_relevance query column_name column_info patterns \<and>
   calculate_column_relevance query column_name column_info patterns \<le> 1"
proof -
  let ?r1 = "if str_in (lower column_name) query then 0 + 8/10 else (0::pyfloat)"
  let ?r2 = "column_synonym_loop (get_or (np_column_synonyms patterns) []) column_name query ?r1"
  have "0 \<le> ?r1" by simp
  also have "?r1 \<le> ?r2" by (rule column_synonym_loop_ge)
  finally have "0 \<le> ?r2" .
  then show ?thesis
    by (simp add: calculate_column_relevance_def Let_def)
qed

lemma calculate_mapping_confidence_bounds:
  assumes "\<forall>t \<in> set (qm_suggested_tables mapping). 0 \<le> st_relevance t"
  shows "0 \<le> calculate_mapping_confidence mapping \<and> calculate_mapping_confidence mapping \<le> 1"
proof -
  have "0 \<le> sum_list (map st_relevance (qm_suggested_tables mapping))"
    using assms by (intro sum_list_nonneg) auto
  then have "0 \<le> sum_list (map st_relevance (qm_suggested_tables mapping))
                 / of_nat (length (qm_suggested_tables mapping))"
    by simp
  then show ?thesis
    by (simp add: calculate_mapping_confidence_def Let_def)
qed

lemma set_sort_reverse: "set (sort_reverse key xs) = set xs"
  by (simp add: sort_reverse_def)

lemma suggest_tables_elem:
  "t \<in> set (suggest_tables tables query_lower patterns) \<Longrightarrow>
   \<exists>table_info. (st_table_name t, table_info) \<in> set tables \<and>
     st_relevance t = calculate_table_relevance query_lower (st_table_name t) table_info patterns \<and>
     st_relevance t > 2/10"
proof (induction tables)
  case Nil
  then show ?case by simp
next
  case (Cons e tables)
  obtain table_name table_info where e: "e = (table_name, table_info)" by (cases e)
  show ?case
  proof (cases "calculate_table_relevance query_lower table_name table_info patterns > 2/10")
    case True
    with Cons e show ?thesis by (auto simp: Let_def)
  next
    case False
    with Cons e show ?thesis by (auto simp: Let_def)
  qed
qed

lemma relevant_columns_elem:
  "c \<in> set (relevant_columns cols query_lower patterns table_data) \<Longrightarrow>
   \<exists>col_info \<in> set cols. sc_column_name c = col_name col_info \<and>
     sc_relevance c = calculate_column_relevance query_lower (col_name col_info) col_info patterns \<and>
     sc_relevance c > 1/10"
proof (induction cols)
  case Nil
  then show ?case by simp
next
  case (Cons col_info cols)
  show ?case
  proof (cases "calculate_column_relevance query_lower (col_name col_info) col_info patterns > 1/10")
    case True
    with Cons show ?thesis by (auto simp: Let_def)
  next
    case False
    with Cons show ?thesis by (auto simp: Let_def)
  qed
qed

lemma set_dict_set: "set (dict_set k v d) \<subseteq> insert (k, v) (set d)"
  by (induction d) (auto split: if_splits)

lemma suggest_columns_invariant:
  assumes "suggest_columns sts tables query_lower patterns acc = Inr d"
    and "\<forall>(k, v) \<in> set acc. P k v"
    and "\<And>table_name table_data. map_of tables table_name = Some table_data \<Longrightarrow>
           P table_name (sort_reverse sc_relevance
             (relevant_columns (get_or (ti_columns table_data) []) query_lower patterns table_data))"
  shows "\<forall>(k, v) \<in> set d. P k v"
  using assms(1,2)
proof (induction sts arbitrary: acc)
  case Nil
  then show ?case by simp
next
  case (Cons t sts)
  from Cons.prems(1) obtain table_data where
    td: "map_of tables (st_table_name t) = Some table_data"
    by (auto simp: Let_def split: option.splits)
  let ?v = "sort_reverse sc_relevance
     (relevant_columns (get_or (ti_columns table_data) []) query_lower patterns table_data)"
  have run: "suggest_columns sts tables query_lower patterns
          (dict_set (st_table_name t) ?v acc) = Inr d"
    using Cons.prems(1) td by (simp add: Let_def)
  have "\<forall>(k, v) \<in> set (dict_set (st_table_name t) ?v acc). P k v"
    using set_dict_set [of "st_table_name t" ?v acc] Cons.prems(2) assms(3) [OF td] by auto
  with run show ?case by (rule Cons.IH)
qed

lemma suggest_columns_total:
  "\<forall>t \<in> set sts. st_table_name t \<in> fst ` set tables \<Longrightarrow>
   \<exists>d. suggest_columns sts tables query_lower patterns acc = Inr d"
proof (induction sts arbitrary: acc)
  case Nil
  then show ?case by simp
next
  case (Cons t sts)
  then have "st_table_name t \<in> fst ` set tables" by simp
  then obtain table_data where "map_of tables (st_table_name t) = Some table_data"
    by (metis map_of_eq_None_iff not_Some_eq)
  with Cons show ?case by (simp add: Let_def)
qed

lemma map_natural_language_to_schema_fields:
  assumes "map_natural_language_to_schema query schema_info = Inr mapping"
  shows "qm_suggested_tables mapping =
           sort_reverse st_relevance (suggest_tables (get_or (si_tables schema_info) [])
             (lower query) (get_or (si_naming_patterns schema_info) no_patterns))"
    and "suggest_columns (qm_suggested_tables mapping) (get_or (si_tables schema_info) [])
           (lower query) (get_or (si_naming_patterns schema_info) no_patterns) []
         = Inr (qm_suggested_columns mapping)"
    and "qm_query_type mapping = classify_query_type query"
    and "qm_confidence mapping = calculate_mapping_confidence mapping"
    and "qm_sql_hints mapping = generate_sql_hints (lower query) mapping"
  using assms
  by (auto simp: map_natural_language_to_schema_def Let_def calculate_mapping_confidence_def
      generate_sql_hints_def split: sum.splits)

lemma map_natural_language_to_schema_total:
  "\<exists>mapping. map_natural_language_to_schema query schema_info = Inr mapping"
proof -
  let ?tables = "get_or (si_tables schema_info) []"
  let ?patterns = "get_or (si_naming_patterns schema_info) no_patterns"
  let ?sts = "sort_reverse st_relevance (suggest_tables ?tables (lower query) ?patterns)"
  have "\<forall>t \<in> set ?sts. st_table_name t \<in> fst ` set ?tables"
    using suggest_tables_elem by (force simp: set_sort_reverse)
  then obtain d where "suggest_columns ?sts ?tables (lower query) ?patterns [] = Inr d"
    using suggest_columns_total by blast
  then show ?thesis
    by (simp add: map_natural_language_to_schema_def Let_def)
qed


text \<open>
  C1: for every query and schema snapshot, every table relevance, every column relevance
  and the confidence lie in the closed interval from 0 to 1; so does every relevance and
  the confidence of the mapping that \<open>map_natural_language_to_schema\<close> returns (and it
  does return one).
\<close>

theorem scores_in_unit_interval:
  "0 \<le> calculate_table_relevance query_lower table_name table_info patterns \<and>
   calculate_table_relevance query_lower table_name table_info patterns \<le> 1 \<and>
   0 \<le> calculate_column_relevance query_lower column_name column_info patterns \<and>
   calculate_column_relevance query_lower column_name column_info patterns \<le> 1 \<and>
   (\<exists>mapping. map_natural_language_to_schema query schema_info = Inr mapping \<and>
      qm_confidence mapping = calculate_mapping_confidence mapping \<and>
      0 \<le> qm_confidence mapping \<and> qm_confidence mapping \<le> 1 \<and>
      (\<forall>t \<in> set (qm_suggested_tables mapping). 0 \<le> st_relevance t \<and> st_relevance t \<le> 1) \<and>
      (\<forall>(name, cols) \<in> set (qm_suggested_columns mapping).
         \<forall>c \<in> set cols. 0 \<le> sc_relevance c \<and> sc_relevance c \<le> 1))"
proof -
  let ?tables = "get_or (si_tables schema_info) []"
  let ?patterns = "get_or (si_naming_patterns schema_info) no_patterns"
  obtain mapping where m: "map_natural_language_to_schema query schema_info = Inr mapping"
    using map_natural_language_to_schema_total by blast
  note f = map_natural_language_to_schema_fields [OF m]
  have tabs: "\<forall>t \<in> set (qm_suggested_tables mapping). 0 \<le> st_relevance t \<and> st_relevance t \<le> 1"
  proof
    fix t assume "t \<in> set (qm_suggested_tables mapping)"
    then have "t \<in> set (suggest_tables ?tables (lower query) ?patterns)"
      by (simp add: f(1) set_sort_reverse)
    then obtain ti where
      "st_relevance t = calculate_table_relevance (lower query) (st_table_name t) ti ?patterns"
      using suggest_tables_elem by blast
    then show "0 \<le> st_relevance t \<and> st_relevance t \<le> 1"
      using calculate_table_relevance_bounds by simp
  qed
  have cols: "\<forall>(name, cols) \<in> set (qm_suggested_columns mapping).
         \<forall>c \<in> set cols. 0 \<le> sc_relevance c \<and> sc_relevance c \<le> 1"
  proof (rule suggest_columns_invariant [OF f(2)])
    show "\<forall>(k, v) \<in> set []. \<forall>c \<in> set v. 0 \<le> sc_relevance c \<and> sc_relevance c \<le> 1"
      by simp
  next
    fix name table_data
    show "\<forall>c \<in> set (sort_reverse sc_relevance (relevant_columns
              (get_or (ti_columns table_data) []) (lower query) ?patterns table_data)).
            0 \<le> sc_relevance c \<and> sc_relevance c \<le> 1"
    proof
      fix c
      assume "c \<in> set (sort_reverse sc_relevance (relevant_columns
              (get_or (ti_columns table_data) []) (lower query) ?patterns table_data))"
      then have "c \<in> set (relevant_columns
              (get_or (ti_columns table_data) []) (lower query) ?patterns table_data)"
        by (simp add: set_sort_reverse)
      then obtain ci where
        "sc_relevance c = calculate_column_relevance (lower query) (col_name ci) ci ?patterns"
        using relevant_columns_elem by blast
      then show "0 \<le> sc_relevance c \<and> sc_relevance c \<le> 1"
        using calculate_column_relevance_bounds by simp
    qed
  qed
  have "0 \<le> calculate_mapping_confidence mapping \<and> calculate_mapping_confidence mapping \<le> 1"
    using tabs by (intro calculate_mapping_confidence_bounds) simp
  then have conf: "0 \<le> qm_confidence mapping \<and> qm_confidence mapping \<le> 1"
    by (simp add: f(4))
  show ?thesis
    using calculate_table_relevance_bounds calculate_column_relevance_bounds m f(4) conf tabs cols
    by blast
qed

theorem scores_in_unit_interval_witness:
  "\<exists>mapping. map_natural_language_to_schema ''how many employees are there?'' employees_schema
       = Inr mapping \<and>
     qm_suggested_tables mapping \<noteq> [] \<and> map snd (qm_suggested_columns mapping) \<noteq> [[]] \<and>
     0 \<le> qm_confidence mapping \<and> qm_confidence mapping \<le> 1 \<and>
     (\<forall>t \<in> set (qm_suggested_tables mapping). 0 \<le> st_relevance t \<and> st_relevance t \<le> 1) \<and>
     (\<forall>(name, cols) \<in> set (qm_suggested_columns mapping).
        \<forall>c \<in> set cols. 0 \<le> sc_relevance c \<and> sc_relevance c \<le> 1)"
proof -
  have run: "map_natural_language_to_schema ''how many employees are there?'' employees_schema =
    Inr \<lparr>qm_suggested_tables =
           [\<lparr>st_table_name = ''employees'', st_relevance = 1, st_purpose = ''employees''\<rparr>],
         qm_suggested_columns =
           [(''employees'',
             [\<lparr>sc_column_name = ''salary'', sc_relevance = 1 / 2, sc_purpose = ''monetary'',
               sc_data_type = ''DECIMAL(10,2)''\<rparr>])],
         qm_query_type = ''count'', qm_confidence = 47 / 50,
         qm_sql_hints = [''Use SELECT COUNT(*) or COUNT(column_name)'']\<rparr>"
    by code_simp
  from scores_in_unit_interval
    [of "[]" "[]" employees_table no_patterns "[]" salary_column
        "''how many employees are there?''" employees_schema]
  obtain mapping where
    m: "map_natural_language_to_schema ''how many employees are there?'' employees_schema
          = Inr mapping"
    and b: "0 \<le> qm_confidence mapping \<and> qm_confidence mapping \<le> 1 \<and>
     (\<forall>t \<in> set (qm_suggested_tables mapping). 0 \<le> st_relevance t \<and> st_relevance t \<le> 1) \<and>
     (\<forall>(name, cols) \<in> set (qm_suggested_columns mapping).
        \<forall>c \<in> set cols. 0 \<le> sc_relevance c \<and> sc_relevance c \<le> 1)"
    by blast
  from m run have "qm_suggested_tables mapping \<noteq> [] \<and>
      map snd (qm_suggested_columns mapping) \<noteq> [[]]"
    by auto
  with m b show ?thesis by blast
qed

section \<open>Order and thresholds of the suggestions\<close>








section \<open>The confidence formula\<close>




lemma map_fst_dict_set:
  "map fst (dict_set k v d) = (if k \<in> set (map fst d) then map fst d else map fst d @ [k])"
  by (induction d) (auto split: if_splits)

lemma keys_dict_set: "set (map fst (dict_set k v d)) = insert k (set (map fst d))"
  by (simp only: map_fst_dict_set) auto








section \<open>The table relevance as a sum\<close>







section \<open>Failures of the introspection are isolated\<close>


lemma map_of_dict_set: "map_of (dict_set k v d) = (map_of d)(k \<mapsto> v)"
  by (induction d) (auto simp: fun_eq_iff)

lemma map_of_analyze_tables:
  "map_of (analyze_tables names cursor acc) t =
     (if t \<in> set names
      then Some ((analyze_table t cursor)
                   \<lparr>ti_purpose := Some (detect_table_purpose t (analyze_table t cursor))\<rparr>)
      else map_of acc t)"
proof (induction names arbitrary: acc)
  case Nil
  then show ?case by simp
next
  case (Cons n names)
  show ?case
    by (simp add: Cons.IH Let_def map_of_dict_set)
qed

lemma keys_analyze_tables:
  "set (map fst (analyze_tables names cursor acc)) = set (map fst acc) \<union> set names"
proof (induction names arbitrary: acc)
  case Nil
  then show ?case by simp
next
  case (Cons n names)
  show ?case
    by (simp only: analyze_tables.simps Let_def Cons.IH keys_dict_set) auto
qed

lemma analyze_table_failed:
  "isl (db_table_info cursor t) \<or> isl (db_foreign_key_list cursor t) \<Longrightarrow>
   analyze_table t cursor = failed_table_info"
  by (auto simp: analyze_table_def Let_def split: sum.splits)

lemma analyze_table_partial:
  assumes "db_table_info cursor t = Inr rows" and "db_foreign_key_list cursor t = Inr fk_rows"
  shows "ti_columns (analyze_table t cursor) = Some (map col_info_of_row rows)"
    and "ti_foreign_keys (analyze_table t cursor) = map foreign_key_of_row fk_rows"
    and "isl (db_select_all cursor t) \<longrightarrow> ti_sample_data (analyze_table t cursor) = []"
    and "isl (db_count cursor t) \<longrightarrow> ti_row_count (analyze_table t cursor) = 0"
  using assms by (auto simp: analyze_table_def Let_def split: sum.splits)

lemma analyze_table_local:
  assumes "db_table_info cursor' t = db_table_info cursor t"
    and "db_foreign_key_list cursor' t = db_foreign_key_list cursor t"
    and "db_select_all cursor' t = db_select_all cursor t"
    and "db_count cursor' t = db_count cursor t"
  shows "analyze_table t cursor' = analyze_table t cursor"
  by (simp only: analyze_table_def assms)

text \<open>
  C8: with a connection and a table list, \<open>analyze_database\<close> succeeds whatever the
  per-table queries do, and every listed table has its entry, built from that table's own
  answers alone. A table on which a pragma fails gets the default entry (no columns, keys,
  samples or purposes, row count 0); when only the sample query fails the sample is empty,
  and when only the count query fails the row count is 0, the rest of the entry being
  built as usual.
\<close>

theorem introspection_failures_isolated:
  assumes "sd_connection self = Some cursor" and "db_list_tables cursor = Inr names"
  shows "\<exists>schema tables. analyze_database self = Inr schema \<and> si_tables schema = Some tables \<and>
     set (map fst tables) = set names \<and>
     (\<forall>t \<in> set names. map_of tables t =
        Some ((analyze_table t cursor)
                \<lparr>ti_purpose := Some (detect_table_purpose t (analyze_table t cursor))\<rparr>)) \<and>
     (\<forall>t. isl (db_table_info cursor t) \<or> isl (db_foreign_key_list cursor t) \<longrightarrow>
        analyze_table t cursor = failed_table_info) \<and>
     (\<forall>t rows fk_rows.
        db_table_info cursor t = Inr rows \<and> db_foreign_key_list cursor t = Inr fk_rows \<longrightarrow>
        ti_columns (analyze_table t cursor) = Some (map col_info_of_row rows) \<and>
        ti_foreign_keys (analyze_table t cursor) = map foreign_key_of_row fk_rows \<and>
        (isl (db_select_all cursor t) \<longrightarrow> ti_sample_data (analyze_table t cursor) = []) \<and>
        (isl (db_count cursor t) \<longrightarrow> ti_row_count (analyze_table t cursor) = 0)) \<and>
     (\<forall>t cursor'.
        db_table_info cursor' t = db_table_info cursor t \<and>
        db_foreign_key_list cursor' t = db_foreign_key_list cursor t \<and>
        db_select_all cursor' t = db_select_all cursor t \<and>
        db_count cursor' t = db_count cursor t \<longrightarrow>
        analyze_table t cursor' = analyze_table t cursor)"
proof -
  let ?tables = "analyze_tables names cursor []"
  let ?schema = "\<lparr>si_tables = Some ?tables,
                   si_relationships = analyze_relationships names cursor [],
                   si_statistics = collect_statistics names cursor,
                   si_naming_patterns = Some (analyze_naming_patterns ?tables),
                   si_database_type = ''sqlite''\<rparr>"
  have run: "analyze_database self = Inr ?schema"
    using assms by (simp add: analyze_database_def Let_def)
  have keys: "set (map fst ?tables) = set names"
    by (simp only: keys_analyze_tables) simp
  have entries: "\<forall>t \<in> set names. map_of ?tables t =
        Some ((analyze_table t cursor)
                \<lparr>ti_purpose := Some (detect_table_purpose t (analyze_table t cursor))\<rparr>)"
    by (simp add: map_of_analyze_tables)
  have failed: "\<forall>t. isl (db_table_info cursor t) \<or> isl (db_foreign_key_list cursor t) \<longrightarrow>
        analyze_table t cursor = failed_table_info"
    using analyze_table_failed by blast
  have partial: "\<forall>t rows fk_rows.
        db_table_info cursor t = Inr rows \<and> db_foreign_key_list cursor t = Inr fk_rows \<longrightarrow>
        ti_columns (analyze_table t cursor) = Some (map col_info_of_row rows) \<and>
        ti_foreign_keys (analyze_table t cursor) = map foreign_key_of_row fk_rows \<and>
        (isl (db_select_all cursor t) \<longrightarrow> ti_sample_data (analyze_table t cursor) = []) \<and>
        (isl (db_count cursor t) \<longrightarrow> ti_row_count (analyze_table t cursor) = 0)"
    using analyze_table_partial by blast
  have local: "\<forall>t cursor'.
        db_table_info cursor' t = db_table_info cursor t \<and>
        db_foreign_key_list cursor' t = db_foreign_key_list cursor t \<and>
        db_select_all cursor' t = db_select_all cursor t \<and>
        db_count cursor' t = db_count cursor t \<longrightarrow>
        analyze_table t cursor' = analyze_table t cursor"
    using analyze_table_local by blast
  show ?thesis
  proof (intro exI conjI)
    show "analyze_database self = Inr ?schema" by (rule run)
    show "si_tables ?schema = Some ?tables" by simp
    show "set (map fst ?tables) = set names" by (rule keys)
    show "\<forall>t \<in> set names. map_of ?tables t =
        Some ((analyze_table t cursor)
                \<lparr>ti_purpose := Some (detect_table_purpose t (analyze_table t cursor))\<rparr>)"
      by (rule entries)
  qed (rule failed partial local)+
qed

theorem introspection_failures_isolated_witness:
  "\<exists>schema tables.
     analyze_database \<lparr>sd_db_path = ''company.db'', sd_connection = Some flaky_database\<rparr>
       = Inr schema \<and>
     si_tables schema = Some tables \<and>
     map_of tables ''departments''
       = Some (failed_table_info\<lparr>ti_purpose := Some ''departments''\<rparr>) \<and>
     map_of tables ''employees'' = Some employees_table"
proof -
  have h1: "sd_connection \<lparr>sd_db_path = ''company.db'', sd_connection = Some flaky_database\<rparr>
      = Some flaky_database"
    by simp
  have h2: "db_list_tables flaky_database = Inr [''departments'', ''employees'']"
    by (simp add: flaky_database_def)
  have isl1: "isl (db_table_info flaky_database ''departments'')"
    by (simp add: flaky_database_def)
  have d: "analyze_table ''departments'' flaky_database = failed_table_info"
    by (rule analyze_table_failed) (simp add: isl1)
  have dp: "detect_table_purpose ''departments'' failed_table_info = ''departments''"
    by code_simp
  have e1: "db_table_info flaky_database ''employees''
      = Inr [\<lparr>tir_name = ''salary'', tir_type = ''DECIMAL(10,2)'', tir_notnull = 0,
               tir_dflt_value = SqlNull, tir_pk = 0\<rparr>]"
    by (simp add: flaky_database_def)
  have e2: "db_foreign_key_list flaky_database ''employees'' = Inr []"
    by (simp add: flaky_database_def)
  have e3: "db_select_all flaky_database ''employees'' = Inl DatabaseError"
    by (simp add: flaky_database_def)
  have e4: "db_count flaky_database ''employees'' = Inl DatabaseError"
    by (simp add: flaky_database_def)
  have cp: "detect_column_purpose ''salary'' ''DECIMAL(10,2)'' = ''monetary''"
    by code_simp
  have e: "analyze_table ''employees'' flaky_database = employees_table\<lparr>ti_purpose := None\<rparr>"
    by (simp add: analyze_table_def e1 e2 e3 e4 cp Let_def col_info_of_row_def
        employees_table_def salary_column_def dict_of_pairs_def get_or_def)
  have ep: "detect_table_purpose ''employees'' (employees_table\<lparr>ti_purpose := None\<rparr>)
      = ''employees''"
    by code_simp
  have es: "employees_table\<lparr>ti_purpose := Some ''employees''\<rparr> = employees_table"
    by (simp add: employees_table_def)
  from introspection_failures_isolated [OF h1 h2]
  obtain schema tables where
    run: "analyze_database \<lparr>sd_db_path = ''company.db'', sd_connection = Some flaky_database\<rparr>
       = Inr schema"
    and st: "si_tables schema = Some tables"
    and entries: "\<forall>t \<in> set [''departments'', ''employees'']. map_of tables t =
        Some ((analyze_table t flaky_database)
          \<lparr>ti_purpose := Some (detect_table_purpose t (analyze_table t flaky_database))\<rparr>)"
    by (elim exE conjE)
  from entries have "map_of tables ''departments''
       = Some (failed_table_info\<lparr>ti_purpose := Some ''departments''\<rparr>)"
    by (simp add: d dp)
  moreover from entries have "map_of tables ''employees'' = Some employees_table"
    by (simp add: e ep es)
  ultimately show ?thesis using run st by (intro exI conjI)
qed

section \<open>The classifier follows its priority table\<close>

text \<open>
  C4: for every query, \<open>_classify_query_type\<close> lower-cases the text and returns the first
  intent, in the order count, aggregation, ranking, sum, grouping, selection, one of whose
  trigger phrases occurs in the lower-cased text, and \<open>general\<close> when no phrase occurs.
\<close>

theorem classify_query_type_first_match:
  "classify_query_type query = first_matching_intent intent_priority (lower query)"
  by (simp only: classify_query_type_def intent_priority_def Let_def
      first_matching_intent.simps any_in_sublist)

theorem classify_query_type_first_match_witness:
  "first_matching_intent intent_priority (lower ''Show the TOP 5 salaries'') = ''ranking''"
  unfolding classify_query_type_first_match [of "''Show the TOP 5 salaries''", symmetric]
  by code_simp

text \<open>
  C10: a query whose lower-cased text contains \<open>total amount\<close> is classified \<open>count\<close>,
  never \<open>sum\<close>: the phrase contains the count trigger \<open>total\<close>, which is tested first.
\<close>

theorem total_amount_is_count:
  "str_in ''total amount'' (lower query) \<Longrightarrow>
     classify_query_type query = ''count'' \<and> classify_query_type query \<noteq> ''sum''"
proof -
  assume "str_in ''total amount'' (lower query)"
  then have "str_in (''total'' @ '' amount'') (lower query)" by simp
  then have "str_in ''total'' (lower query)" by (rule str_in_append_left)
  then have "any_in [''count'', ''how many'', ''number of'', ''total''] (lower query)"
    by (simp add: any_in_def)
  then show ?thesis by (simp add: classify_query_type_def)
qed

theorem total_amount_is_count_witness:
  "str_in ''total amount'' (lower ''Total Amount of sales'') \<and>
   classify_query_type ''Total Amount of sales'' = ''count'' \<and>
   classify_query_type ''Total Amount of sales'' \<noteq> ''sum''"
proof -
  have h: "str_in ''total amount'' (lower ''Total Amount of sales'')" by code_simp
  show ?thesis using h total_amount_is_count [OF h] by simp
qed

end
